theory Spec2Isabelle
  imports Complex_Main "HOL-Library.AList"
begin

section \<open>Data model\<close>

text \<open>
  The simulated todo backend (\<^verbatim>\<open>todo-api.ts\<close>) and its notification channel
  (\<^verbatim>\<open>fake-socket.ts\<close>). Indices are JavaScript numbers; the development covers the
  integral ones and models them as \<^typ>\<open>int\<close>.

  A statement of the source either completes or throws.

  \<^verbatim>\<open>type Todo = { description: string; done: boolean }\<close>. The field \<^verbatim>\<open>done\<close> is
  spelled \<open>todo_done\<close> because \<^verbatim>\<open>done\<close> is a keyword of the proof language.
\<close>

datatype completion = Normal | Throw

record todo =
  description :: string
  todo_done :: bool

text \<open>
  A JavaScript array. \<open>elems\<close> are the slots \<open>0 ..< length\<close>; a slot that holds no
  value (an empty slot, \<^verbatim>\<open>undefined\<close> or, after a reload, \<^verbatim>\<open>null\<close>) is \<open>None\<close>.
  \<open>props\<close> are the properties whose key is an integer that is not an array index
  (negative, or above \<open>2^32 - 2\<close>): assigning to such a key changes neither the slots
  nor the length. Properties are kept in insertion order.
\<close>

record 'a js_array =
  elems :: "'a option list"
  props :: "(int \<times> 'a) list"

definition empty_array :: "'a js_array" where
  "empty_array = \<lparr>elems = [], props = []\<rparr>"

definition array_length :: "'a js_array \<Rightarrow> int" where
  "array_length a = int (length (elems a))"

definition is_array_index :: "int \<Rightarrow> bool" where
  "is_array_index i = (0 \<le> i \<and> i < 4294967295)"

text \<open>\<^verbatim>\<open>a[i]\<close>: the value read back at key \<open>i\<close>, \<open>None\<close> for \<^verbatim>\<open>undefined\<close>.\<close>

definition array_get :: "'a js_array \<Rightarrow> int \<Rightarrow> 'a option" where
  "array_get a i =
     (if is_array_index i
      then (if nat i < length (elems a) then elems a ! nat i else None)
      else map_of (props a) i)"

text \<open>
  \<^verbatim>\<open>a[i] = v\<close>: inside the array it overwrites the slot, past the end it extends the
  array (the slots in between stay empty), and for a key that is not an array index it
  sets an ordinary property.
\<close>

definition array_set :: "int \<Rightarrow> 'a \<Rightarrow> 'a js_array \<Rightarrow> 'a js_array" where
  "array_set i v a =
     (if is_array_index i
      then (if nat i < length (elems a)
            then a\<lparr>elems := (elems a)[nat i := Some v]\<rparr>
            else a\<lparr>elems := elems a @ replicate (nat i - length (elems a)) None @ [Some v]\<rparr>)
      else a\<lparr>props := AList.update i v (props a)\<rparr>)"

text \<open>
  \<^verbatim>\<open>a.push(v)\<close>. An array holds at most \<open>2^32 - 1\<close> slots: on a full array \<^verbatim>\<open>push\<close>
  sets the property of key \<open>length\<close> and then throws when it sets the length.
\<close>

definition array_push :: "'a \<Rightarrow> 'a js_array \<Rightarrow> completion \<times> 'a js_array" where
  "array_push v a =
     (if length (elems a) < 4294967295
      then (Normal, a\<lparr>elems := elems a @ [Some v]\<rparr>)
      else (Throw, a\<lparr>props := AList.update (int (length (elems a))) v (props a)\<rparr>))"

text \<open>
  \<^verbatim>\<open>xs.splice(start, deleteCount, ...new)\<close> on the slots: a negative \<open>start\<close> counts
  from the end, both \<open>start\<close> and \<open>deleteCount\<close> are clamped to the array. The result
  is the removed slots and the array afterwards.
\<close>

definition splice_js :: "int \<Rightarrow> nat \<Rightarrow> 'a list \<Rightarrow> 'a list \<Rightarrow> 'a list \<times> 'a list" where
  "splice_js start deleteCount new xs =
     (let len = length xs;
          actualStart = (if start < 0 then nat (max (int len + start) 0) else min (nat start) len);
          actualDeleteCount = min deleteCount (len - actualStart)
      in (take actualDeleteCount (drop actualStart xs),
          take actualStart xs @ new @ drop (actualStart + actualDeleteCount) xs))"

definition array_splice ::
  "int \<Rightarrow> nat \<Rightarrow> 'a option list \<Rightarrow> 'a js_array \<Rightarrow> 'a option list \<times> 'a js_array" where
  "array_splice start deleteCount new a =
     (let (removed, rest) = splice_js start deleteCount new (elems a)
      in (removed, a\<lparr>elems := rest\<rparr>))"

text \<open>\<^verbatim>\<open>[...a]\<close>: a fresh array of the slots; properties are not copied.\<close>

definition spread :: "'a js_array \<Rightarrow> 'a js_array" where
  "spread a = \<lparr>elems = elems a, props = []\<rparr>"

text \<open>\<^verbatim>\<open>type TodoList = { items: Todo[]; name: string }\<close>\<close>

record todolist =
  items :: "todo js_array"
  name :: string

text \<open>
  \<^verbatim>\<open>this.todos[listIndex]\<close> on the list of lists, which the API only grows by
  \<^verbatim>\<open>push\<close> and shrinks by \<^verbatim>\<open>splice\<close>: \<open>None\<close> (\<^verbatim>\<open>undefined\<close>) outside the array.
  The list of lists has no empty slot and stays far below \<open>2^32 - 1\<close> lists.
\<close>

definition js_index :: "'a list \<Rightarrow> int \<Rightarrow> 'a option" where
  "js_index xs i = (if 0 \<le> i \<and> i < int (length xs) then Some (xs ! nat i) else None)"

subsection \<open>Responses\<close>

text \<open>\<^verbatim>\<open>ApiResponseError = { error: { code, description } }\<close>\<close>

datatype api_error = ApiResponseError int string

definition buildErrorResponse :: "int \<Rightarrow> string \<Rightarrow> api_error" where
  "buildErrorResponse code descr = ApiResponseError code descr"

text \<open>
  The promise an operation returns. It settles once: a later \<^verbatim>\<open>resolve\<close> or
  \<^verbatim>\<open>reject\<close> is ignored, and neither of them ends the callback that calls it.
\<close>

datatype 'a promise = Pending | Resolved 'a | Rejected api_error

fun resolve :: "'a \<Rightarrow> 'a promise \<Rightarrow> 'a promise" where
  "resolve v Pending = Resolved v"
| "resolve v p = p"

fun reject :: "api_error \<Rightarrow> 'a promise \<Rightarrow> 'a promise" where
  "reject e Pending = Rejected e"
| "reject e p = p"

subsection \<open>The notification channel\<close>

datatype raw_message =
    CreateListMessage todolist
  | DeleteListMessage int
  | AddTodoMessage int todo
  | RemoveTodoMessage int int
  | MoveTodoMessage int int int
  | EditTodoMessage int int todo

text \<open>\<^verbatim>\<open>SocketMessage = RawMessage & {sequenceId: number}\<close>\<close>

datatype socket_message = SocketMessage (msg_sequenceId: int) (msg_raw: raw_message)

text \<open>
  A listener is a callback, compared by identity, and is modelled by its identity. What
  the callbacks do is not code of the socket: \<open>throws\<close> tells for which listener and
  message the call throws instead of returning. Every call is recorded in \<open>delivered\<close>,
  the sequence of calls made so far, whether it returns or throws. Listeners are assumed
  not to call back into the socket.
\<close>

type_synonym socket_client = nat

record fake_socket =
  clients :: "socket_client list"
  sequenceId :: int
  delivered :: "(socket_client \<times> socket_message) list"
  throws :: "socket_client \<Rightarrow> socket_message \<Rightarrow> bool"

definition new_socket :: "(socket_client \<Rightarrow> socket_message \<Rightarrow> bool) \<Rightarrow> fake_socket" where
  "new_socket behaviour = \<lparr>clients = [], sequenceId = 0, delivered = [], throws = behaviour\<rparr>"

definition addListener :: "socket_client \<Rightarrow> fake_socket \<Rightarrow> fake_socket" where
  "addListener client sock = sock\<lparr>clients := clients sock @ [client]\<rparr>"


text \<open>
  One round of the \<^verbatim>\<open>forEach\<close> in \<^verbatim>\<open>dispatchMessage\<close>: the listener is called with
  the stamped message, and the call returns or throws.
\<close>

definition call_client ::
  "raw_message \<Rightarrow> fake_socket \<Rightarrow> socket_client \<Rightarrow> completion \<times> fake_socket" where
  "call_client message sock client =
     (let socketMessage = SocketMessage (sequenceId sock) message;
          sock1 = sock\<lparr>delivered := delivered sock @ [(client, socketMessage)]\<rparr>
      in (if throws sock client socketMessage then Throw else Normal, sock1))"

text \<open>
  The \<^verbatim>\<open>forEach\<close>: nothing catches what a listener throws, so the first call that
  throws ends the loop and the listeners after it are not called.
\<close>

fun forEach_client ::
  "raw_message \<Rightarrow> socket_client list \<Rightarrow> fake_socket \<Rightarrow> completion \<times> fake_socket" where
  "forEach_client message [] sock = (Normal, sock)"
| "forEach_client message (client # rest) sock =
     (case call_client message sock client of
        (Throw, sock1) \<Rightarrow> (Throw, sock1)
      | (Normal, sock1) \<Rightarrow> forEach_client message rest sock1)"

definition dispatchMessage :: "raw_message \<Rightarrow> fake_socket \<Rightarrow> completion \<times> fake_socket" where
  "dispatchMessage message sock = forEach_client message (clients sock) sock"

subsection \<open>The store\<close>

text \<open>
  What \<^verbatim>\<open>JSON.stringify\<close> keeps of a list: its name and the slots of its items
  (an empty slot is written as \<^verbatim>\<open>null\<close>; properties that are not array indices are
  not written).
\<close>

type_synonym json_list = "string \<times> todo option list"

definition toJSON :: "todolist \<Rightarrow> json_list" where
  "toJSON l = (name l, elems (items l))"

definition fromJSON :: "json_list \<Rightarrow> todolist" where
  "fromJSON j = \<lparr>items = \<lparr>elems = snd j, props = []\<rparr>, name = fst j\<rparr>"

text \<open>
  The slot \<^verbatim>\<open>'jamespot-todo-tech'\<close> of \<^verbatim>\<open>localStorage\<close>, by what reading it gives:
  nothing or the empty string (\<open>NoItem\<close>), a text that \<^verbatim>\<open>JSON.parse\<close> rejects
  (\<open>Malformed\<close>), a value that is not an array (\<open>NotArray\<close>), or an array of lists.
\<close>

datatype stored = NoItem | Malformed | NotArray | ArrayBlob "json_list list"

text \<open>
  \<open>storable\<close> is the part of the engine and of the browser that the source does not
  contain: whether \<^verbatim>\<open>JSON.stringify\<close> of a value and \<^verbatim>\<open>localStorage.setItem\<close> of the
  text go through (the text fits the longest string and the quota), or throw.
\<close>

record api_state =
  successRate :: real
  todos :: "todolist list"
  storage :: stored
  socket :: fake_socket
  storable :: "json_list list \<Rightarrow> bool"

definition initTodos :: "todolist list" where
  "initTodos = [\<lparr>items = empty_array, name = ''my first list''\<rparr>]"

text \<open>
  The constructor of \<^verbatim>\<open>TodoApi\<close>, given the storage, the socket and the limits it
  finds.
\<close>

definition new_TodoApi ::
  "stored \<Rightarrow> fake_socket \<Rightarrow> (json_list list \<Rightarrow> bool) \<Rightarrow> api_state" where
  "new_TodoApi st sock limits =
     \<lparr>successRate = 1,
      todos = (case st of ArrayBlob todosJsonFromStorage \<Rightarrow> map fromJSON todosJsonFromStorage
               | _ \<Rightarrow> initTodos),
      storage = st,
      socket = sock,
      storable = limits\<rparr>"

definition saveTodoToStorage :: "api_state \<Rightarrow> completion \<times> api_state" where
  "saveTodoToStorage s =
     (let json = map toJSON (todos s)
      in if storable s json then (Normal, s\<lparr>storage := ArrayBlob json\<rparr>) else (Throw, s))"

text \<open>\<^verbatim>\<open>Math.random() < successRate\<close>, the draw being the argument \<open>rnd\<close>.\<close>

definition isSuccess :: "real \<Rightarrow> real \<Rightarrow> bool" where
  "isSuccess rate rnd = (rnd < rate)"

text \<open>\<^verbatim>\<open>socket.dispatchMessage(message)\<close> called from the store.\<close>

definition broadcast :: "raw_message \<Rightarrow> api_state \<Rightarrow> completion \<times> api_state" where
  "broadcast message s =
     (case dispatchMessage message (socket s) of (c, sock) \<Rightarrow> (c, s\<lparr>socket := sock\<rparr>))"

definition internal_error :: api_error where
  "internal_error = buildErrorResponse 500 ''internal error''"

definition index_out_of_bound :: api_error where
  "index_out_of_bound = buildErrorResponse 400 ''index out of bound''"

text \<open>
  The statements that end the \<^verbatim>\<open>try\<close> block of every operation:
  \<^verbatim>\<open>this.saveTodoToStorage(); socket.dispatchMessage(message); resolve({response})\<close>.
  A statement that throws ends the block.
\<close>

definition save_dispatch_resolve ::
  "raw_message \<Rightarrow> 'a \<Rightarrow> 'a promise \<Rightarrow> api_state \<Rightarrow> completion \<times> 'a promise \<times> api_state" where
  "save_dispatch_resolve message response p s =
     (case saveTodoToStorage s of
        (Throw, s1) \<Rightarrow> (Throw, p, s1)
      | (Normal, s1) \<Rightarrow>
          (case broadcast message s1 of
             (Throw, s2) \<Rightarrow> (Throw, p, s2)
           | (Normal, s2) \<Rightarrow> (Normal, resolve response p, s2)))"

text \<open>\<^verbatim>\<open>catch (e) { reject(this.buildErrorResponse(500, 'internal error')) }\<close>\<close>

definition catch_reject :: "completion \<times> 'a promise \<times> api_state \<Rightarrow> 'a promise \<times> api_state" where
  "catch_reject r =
     (case r of
        (Normal, p, s) \<Rightarrow> (p, s)
      | (Throw, p, s) \<Rightarrow> (reject internal_error p, s))"

text \<open>
  Each operation is the body of its timer callback: from the draw of \<^verbatim>\<open>Math.random\<close>
  and the state before, the promise's final state and the state after.

  \<open>createList\<close> has no \<^verbatim>\<open>try\<close>: when a statement throws, the callback ends and the
  promise stays pending.
\<close>

definition createList :: "string \<Rightarrow> real \<Rightarrow> api_state \<Rightarrow> int promise \<times> api_state" where
  "createList new_name rnd s =
     (if isSuccess (successRate s) rnd then
        (let s1 = s\<lparr>todos := todos s @ [\<lparr>items = empty_array, name = new_name\<rparr>]\<rparr>;
             len = int (length (todos s1))
         in case saveTodoToStorage s1 of
              (Throw, s2) \<Rightarrow> (Pending, s2)
            | (Normal, s2) \<Rightarrow>
                (case js_index (todos s2) (int (length (todos s2)) - 1) of
                   None \<Rightarrow> (Pending, s2)
                 | Some currentTodo \<Rightarrow>
                     (case broadcast (CreateListMessage
                             \<lparr>items = spread (items currentTodo), name = name currentTodo\<rparr>) s2 of
                        (Throw, s3) \<Rightarrow> (Pending, s3)
                      | (Normal, s3) \<Rightarrow> (resolve (len - 1) Pending, s3))))
      else (reject internal_error Pending, s))"

definition deleteList :: "int \<Rightarrow> real \<Rightarrow> api_state \<Rightarrow> bool promise \<times> api_state" where
  "deleteList listIndex rnd s =
     (if isSuccess (successRate s) rnd then
        catch_reject
          (let p1 = (if listIndex < 0 \<or> listIndex \<ge> int (length (todos s))
                     then reject index_out_of_bound Pending else Pending);
               s1 = s\<lparr>todos := snd (splice_js listIndex 1 [] (todos s))\<rparr>
           in save_dispatch_resolve (DeleteListMessage listIndex) True p1 s1)
      else (reject internal_error Pending, s))"

text \<open>
  \<open>currentList\<close> is a reference into \<^verbatim>\<open>this.todos\<close>: changing its items changes the
  list at \<open>listIndex\<close>.
\<close>

definition set_items :: "int \<Rightarrow> todo js_array \<Rightarrow> api_state \<Rightarrow> api_state" where
  "set_items listIndex new_items s =
     s\<lparr>todos := (todos s)[nat listIndex := (todos s ! nat listIndex)\<lparr>items := new_items\<rparr>]\<rparr>"

definition addTodo :: "int \<Rightarrow> todo \<Rightarrow> real \<Rightarrow> api_state \<Rightarrow> bool promise \<times> api_state" where
  "addTodo listIndex item rnd s =
     (if isSuccess (successRate s) rnd then
        catch_reject
          (let p1 = (if listIndex < 0 \<or> listIndex \<ge> int (length (todos s))
                     then reject index_out_of_bound Pending else Pending)
           in case js_index (todos s) listIndex of
                None \<Rightarrow> (Normal, p1, s)
              | Some currentList \<Rightarrow>
                  (case array_push item (items currentList) of
                     (Throw, items1) \<Rightarrow> (Throw, p1, set_items listIndex items1 s)
                   | (Normal, items1) \<Rightarrow>
                       save_dispatch_resolve (AddTodoMessage listIndex item) True p1
                         (set_items listIndex items1 s)))
      else (reject internal_error Pending, s))"

definition removeTodo :: "int \<Rightarrow> int \<Rightarrow> real \<Rightarrow> api_state \<Rightarrow> bool promise \<times> api_state" where
  "removeTodo listIndex todoIndex rnd s =
     (if isSuccess (successRate s) rnd then
        catch_reject
          (if listIndex < 0 \<or> listIndex \<ge> int (length (todos s))
           then (Normal, reject index_out_of_bound Pending, s)
           else case js_index (todos s) listIndex of
                None \<Rightarrow> (Normal, reject index_out_of_bound Pending, s)
              | Some currentList \<Rightarrow>
                  (if todoIndex < 0 \<or> todoIndex \<ge> array_length (items currentList)
                   then (Normal, reject index_out_of_bound Pending, s)
                   else save_dispatch_resolve (RemoveTodoMessage listIndex todoIndex) True Pending
                          (set_items listIndex
                             (snd (array_splice todoIndex 1 [] (items currentList))) s)))
      else (reject internal_error Pending, s))"

definition moveTodo :: "int \<Rightarrow> int \<Rightarrow> int \<Rightarrow> real \<Rightarrow> api_state \<Rightarrow> bool promise \<times> api_state" where
  "moveTodo listIndex sourceIndex destIndex rnd s =
     (if isSuccess (successRate s) rnd then
        catch_reject
          (case js_index (todos s) listIndex of
             None \<Rightarrow>
               (Normal, reject (buildErrorResponse 400 ''Could not find todolist'') Pending, s)
           | Some todoList \<Rightarrow>
               (if listIndex < 0 \<or> listIndex \<ge> int (length (todos s)) \<or>
                   sourceIndex < 0 \<or> sourceIndex \<ge> array_length (items todoList)
                then (Normal, reject index_out_of_bound Pending, s)
                else
                  (let (todo, items1) = array_splice sourceIndex 1 [] (items todoList);
                       (_, items2) = array_splice destIndex 0 todo items1
                   in save_dispatch_resolve (MoveTodoMessage listIndex sourceIndex destIndex)
                        True Pending (set_items listIndex items2 s))))
      else (reject internal_error Pending, s))"

definition editTodo :: "int \<Rightarrow> int \<Rightarrow> todo \<Rightarrow> real \<Rightarrow> api_state \<Rightarrow> bool promise \<times> api_state" where
  "editTodo listIndex itemIndex newValue rnd s =
     (if isSuccess (successRate s) rnd then
        catch_reject
          (case js_index (todos s) listIndex of
             None \<Rightarrow>
               (Normal, reject (buildErrorResponse 400 ''could not find todolist'') Pending, s)
           | Some todoList \<Rightarrow>
               (let p1 = (if listIndex < 0 \<or> listIndex \<ge> int (length (todos s)) \<or>
                             itemIndex < 0 \<or> itemIndex \<ge> array_length (items todoList)
                          then reject index_out_of_bound Pending else Pending)
                in save_dispatch_resolve (EditTodoMessage listIndex itemIndex newValue) True p1
                     (set_items listIndex (array_set itemIndex newValue (items todoList)) s)))
      else (reject internal_error Pending, s))"

subsection \<open>Notions used to state the properties\<close>

text \<open>The sequence without its element at position \<open>i\<close>.\<close>

definition remove_at :: "nat \<Rightarrow> 'a list \<Rightarrow> 'a list" where
  "remove_at i xs = take i xs @ drop (Suc i) xs"

text \<open>
  The sequence with \<open>x\<close> put at position \<open>i\<close>, the elements from \<open>i\<close> on moving up
  by one; at the end when \<open>i\<close> is not a position of the sequence.
\<close>

definition insert_at :: "nat \<Rightarrow> 'a \<Rightarrow> 'a list \<Rightarrow> 'a list" where
  "insert_at i x xs = take i xs @ [x] @ drop i xs"

text \<open>The elements up to and including the first for which \<open>P\<close> holds; all when none.\<close>

definition until_first :: "('a \<Rightarrow> bool) \<Rightarrow> 'a list \<Rightarrow> 'a list" where
  "until_first P xs =
     takeWhile (\<lambda>x. \<not> P x) xs @ take 1 (dropWhile (\<lambda>x. \<not> P x) xs)"

text \<open>The listeners that one dispatch of \<open>message\<close> calls.\<close>

definition called :: "raw_message \<Rightarrow> fake_socket \<Rightarrow> socket_client list" where
  "called message sock =
     until_first (\<lambda>client. throws sock client (SocketMessage (sequenceId sock) message))
       (clients sock)"

text \<open>No registered listener throws on \<open>message\<close>.\<close>

definition quiet :: "fake_socket \<Rightarrow> raw_message \<Rightarrow> bool" where
  "quiet sock message =
     list_all (\<lambda>client. \<not> throws sock client (SocketMessage (sequenceId sock) message))
       (clients sock)"


text \<open>The text that a save of the lists would store.\<close>

definition json_of :: "todolist list \<Rightarrow> json_list list" where
  "json_of ls = map (\<lambda>l. (name l, elems (items l))) ls"

text \<open>The four operations on the items of one list, as calls.\<close>

datatype item_call =
    AddItem int todo
  | RemoveItem int int
  | MoveItem int int int
  | EditItem int int todo

fun perform :: "item_call \<Rightarrow> real \<Rightarrow> api_state \<Rightarrow> bool promise \<times> api_state" where
  "perform (AddItem listIndex item) rnd s = addTodo listIndex item rnd s"
| "perform (RemoveItem listIndex todoIndex) rnd s = removeTodo listIndex todoIndex rnd s"
| "perform (MoveItem listIndex sourceIndex destIndex) rnd s =
     moveTodo listIndex sourceIndex destIndex rnd s"
| "perform (EditItem listIndex itemIndex newValue) rnd s =
     editTodo listIndex itemIndex newValue rnd s"

fun target_list :: "item_call \<Rightarrow> int" where
  "target_list (AddItem listIndex item) = listIndex"
| "target_list (RemoveItem listIndex todoIndex) = listIndex"
| "target_list (MoveItem listIndex sourceIndex destIndex) = listIndex"
| "target_list (EditItem listIndex itemIndex newValue) = listIndex"

text \<open>The message an operation dispatches.\<close>

fun message_of :: "item_call \<Rightarrow> raw_message" where
  "message_of (AddItem listIndex item) = AddTodoMessage listIndex item"
| "message_of (RemoveItem listIndex todoIndex) = RemoveTodoMessage listIndex todoIndex"
| "message_of (MoveItem listIndex sourceIndex destIndex) =
     MoveTodoMessage listIndex sourceIndex destIndex"
| "message_of (EditItem listIndex itemIndex newValue) =
     EditTodoMessage listIndex itemIndex newValue"

definition valid_list :: "api_state \<Rightarrow> int \<Rightarrow> bool" where
  "valid_list s listIndex = (0 \<le> listIndex \<and> listIndex < int (length (todos s)))"

definition valid_item :: "api_state \<Rightarrow> int \<Rightarrow> int \<Rightarrow> bool" where
  "valid_item s listIndex itemIndex =
     (valid_list s listIndex \<and> 0 \<le> itemIndex \<and>
      itemIndex < array_length (items (todos s ! nat listIndex)))"

text \<open>
  The indices an operation checks are in range. The destination of a move is not
  among them: the code does not check it.
\<close>

fun valid_indices :: "api_state \<Rightarrow> item_call \<Rightarrow> bool" where
  "valid_indices s (AddItem listIndex item) = valid_list s listIndex"
| "valid_indices s (RemoveItem listIndex todoIndex) = valid_item s listIndex todoIndex"
| "valid_indices s (MoveItem listIndex sourceIndex destIndex) =
     valid_item s listIndex sourceIndex"
| "valid_indices s (EditItem listIndex itemIndex newValue) = valid_item s listIndex itemIndex"

text \<open>The items of the list can take one more slot.\<close>

definition has_room :: "api_state \<Rightarrow> int \<Rightarrow> bool" where
  "has_room s listIndex = (array_length (items (todos s ! nat listIndex)) < 4294967295)"

text \<open>
  Nothing throws in the call: the array has room for what an \<open>addTodo\<close> pushes, the
  storage takes the lists as the call leaves them, and no listener throws on the
  message.
\<close>

definition nothing_throws :: "api_state \<Rightarrow> real \<Rightarrow> item_call \<Rightarrow> bool" where
  "nothing_throws s rnd c =
     ((case c of AddItem listIndex item \<Rightarrow> has_room s listIndex | _ \<Rightarrow> True) \<and>
      storable s (json_of (todos (snd (perform c rnd s)))) \<and>
      quiet (socket s) (message_of c))"

text \<open>
  Example data. The listeners of \<open>returning\<close> never throw; \<open>first_throws\<close> makes
  listener 1 throw on every message. \<open>below_string_limit\<close> is a storage that throws
  on a list of \<open>2^29\<close> slots or more, whose text no string of the engine can hold, and
  takes everything else.
\<close>

definition returning :: "socket_client \<Rightarrow> socket_message \<Rightarrow> bool" where
  "returning client m = False"

definition first_throws :: "socket_client \<Rightarrow> socket_message \<Rightarrow> bool" where
  "first_throws client m = (client = 1)"

definition below_string_limit :: "json_list list \<Rightarrow> bool" where
  "below_string_limit json = list_all (\<lambda>j. length (snd j) < 536870912) json"

definition item_A :: todo where
  "item_A = \<lparr>description = ''A'', todo_done = False\<rparr>"

definition item_B :: todo where
  "item_B = \<lparr>description = ''B'', todo_done = True\<rparr>"

definition item_C :: todo where
  "item_C = \<lparr>description = ''C'', todo_done = False\<rparr>"

definition abc_state :: api_state where
  "abc_state =
     \<lparr>successRate = 1,
      todos = [\<lparr>items = \<lparr>elems = [Some item_A, Some item_B, Some item_C], props = []\<rparr>,
                name = ''letters''\<rparr>],
      storage = ArrayBlob [(''letters'', [Some item_A, Some item_B, Some item_C])],
      socket = \<lparr>clients = [1, 2], sequenceId = 0, delivered = [], throws = returning\<rparr>,
      storable = below_string_limit\<rparr>"

definition two_item_state :: api_state where
  "two_item_state =
     \<lparr>successRate = 1,
      todos = [\<lparr>items = \<lparr>elems = [Some item_A, Some item_B], props = []\<rparr>, name = ''pair''\<rparr>,
               \<lparr>items = empty_array, name = ''other''\<rparr>],
      storage = ArrayBlob [(''pair'', [Some item_A, Some item_B]), (''other'', [])],
      socket = \<lparr>clients = [1], sequenceId = 0, delivered = [], throws = returning\<rparr>,
      storable = below_string_limit\<rparr>"

definition two_listener_socket :: fake_socket where
  "two_listener_socket =
     \<lparr>clients = [1, 2], sequenceId = 4, delivered = [], throws = returning\<rparr>"


definition first_throws_socket :: fake_socket where
  "first_throws_socket =
     \<lparr>clients = [1, 2], sequenceId = 4, delivered = [], throws = first_throws\<rparr>"

section \<open>Basic facts\<close>

lemma splice_remove_one:
  assumes "0 \<le> i" and "i < int (length xs)"
  shows "splice_js i (Suc 0) [] xs = ([xs ! nat i], remove_at (nat i) xs)"
proof -
  from assms have lt: "nat i < length xs" by linarith
  then have one: "min (Suc 0) (length xs - nat i) = Suc 0" by linarith
  from lt have start: "min (nat i) (length xs) = nat i" by linarith
  from lt have "take (Suc 0) (drop (nat i) xs) = [xs ! nat i]"
    by (simp add: Cons_nth_drop_Suc [symmetric])
  with assms one start show ?thesis
    by (simp add: splice_js_def remove_at_def Let_def)
qed

lemma splice_insert:
  "0 \<le> i \<Longrightarrow> splice_js i 0 new xs = ([], take (nat i) xs @ new @ drop (nat i) xs)"
  by (simp add: splice_js_def Let_def min_def)

lemma insert_at_remove_at:
  "i < length xs \<Longrightarrow> insert_at i (xs ! i) (remove_at i xs) = xs"
  by (simp add: insert_at_def remove_at_def min_def id_take_nth_drop [symmetric])

lemma remove_at_last: "remove_at (length xs) (xs @ [x]) = xs"
  by (simp add: remove_at_def)

lemma json_of_eq: "json_of ls = map toJSON ls"
  by (simp add: json_of_def toJSON_def)

lemma array_get_array_set: "array_get (array_set i v a) i = Some v"
  by (simp add: array_get_def array_set_def update_conv' nth_append)

lemma elems_array_set:
  "elems (array_set i v a) =
     (if is_array_index i
      then (if nat i < length (elems a) then (elems a)[nat i := Some v]
            else elems a @ replicate (nat i - length (elems a)) None @ [Some v])
      else elems a)"
  by (simp add: array_set_def)

lemma length_elems_array_set:
  "length (elems (array_set i v a)) =
     (if is_array_index i then max (length (elems a)) (Suc (nat i)) else length (elems a))"
  by (simp add: elems_array_set)

lemma todos_set_items:
  "todos (set_items l a s) = (todos s)[nat l := (todos s ! nat l)\<lparr>items := a\<rparr>]"
  by (simp add: set_items_def)

lemma set_items_same:
  "nat l < length (todos s) \<Longrightarrow> set_items l (items (todos s ! nat l)) s = s"
  by (simp add: set_items_def)

lemma set_items_fields:
  "successRate (set_items l a s) = successRate s"
  "storage (set_items l a s) = storage s"
  "socket (set_items l a s) = socket s"
  "storable (set_items l a s) = storable s"
  by (simp_all add: set_items_def)

lemma frame_set_items:
  assumes "nat l < length (todos s)"
  shows "length (todos (set_items l a s)) = length (todos s) \<and>
     (\<forall>j. j \<noteq> nat l \<longrightarrow> todos (set_items l a s) ! j = todos s ! j) \<and>
     name (todos (set_items l a s) ! nat l) = name (todos s ! nat l)"
  using assms by (simp add: todos_set_items)

subsection \<open>Dispatch\<close>

lemma until_first_Nil: "until_first P [] = []"
  by (simp add: until_first_def)

lemma until_first_Cons:
  "until_first P (x # xs) = (if P x then [x] else x # until_first P xs)"
  by (simp add: until_first_def)

lemma until_first_none: "list_all (\<lambda>x. \<not> P x) xs \<Longrightarrow> until_first P xs = xs"
  by (induction xs) (simp_all add: until_first_Nil until_first_Cons)

lemma forEach_client_eq:
  "forEach_client message cs sock =
     (if list_all (\<lambda>client. \<not> throws sock client (SocketMessage (sequenceId sock) message)) cs
      then Normal else Throw,
      sock\<lparr>delivered := delivered sock @
        map (\<lambda>client. (client, SocketMessage (sequenceId sock) message))
          (until_first (\<lambda>client. throws sock client (SocketMessage (sequenceId sock) message))
             cs)\<rparr>)"
  by (induction cs arbitrary: sock)
     (simp_all add: call_client_def until_first_Nil until_first_Cons)

lemma dispatchMessage_eq:
  "dispatchMessage message sock =
     (if quiet sock message then Normal else Throw,
      sock\<lparr>delivered := delivered sock @
        map (\<lambda>client. (client, SocketMessage (sequenceId sock) message)) (called message sock)\<rparr>)"
  by (simp add: dispatchMessage_def forEach_client_eq quiet_def called_def)

lemma called_quiet: "quiet sock message \<Longrightarrow> called message sock = clients sock"
  by (simp add: quiet_def called_def until_first_none)



text \<open>The socket after a dispatch.\<close>

lemma snd_dispatchMessage_fields:
  "clients (snd (dispatchMessage message sock)) = clients sock"
  "sequenceId (snd (dispatchMessage message sock)) = sequenceId sock"
  "throws (snd (dispatchMessage message sock)) = throws sock"
  by (simp_all add: dispatchMessage_eq)

subsection \<open>The end of the try block\<close>

lemma save_dispatch_resolve_eq:
  "save_dispatch_resolve message response p s =
     (if storable s (json_of (todos s))
      then (if quiet (socket s) message then Normal else Throw,
            if quiet (socket s) message then resolve response p else p,
            s\<lparr>storage := ArrayBlob (json_of (todos s)),
              socket := snd (dispatchMessage message (socket s))\<rparr>)
      else (Throw, p, s))"
  by (simp add: save_dispatch_resolve_def saveTodoToStorage_def broadcast_def json_of_eq
      dispatchMessage_eq Let_def)

lemma todos_save_dispatch_resolve:
  "todos (snd (snd (save_dispatch_resolve message response p s))) = todos s"
  by (simp add: save_dispatch_resolve_eq)

lemma todos_catch_reject: "todos (snd (catch_reject r)) = todos (snd (snd r))"
  by (cases r) (simp add: catch_reject_def split: completion.splits)

lemma catch_save_dispatch_resolve:
  "catch_reject (save_dispatch_resolve message response p s) =
     (if storable s (json_of (todos s))
      then (if quiet (socket s) message then resolve response p else reject internal_error p,
            s\<lparr>storage := ArrayBlob (json_of (todos s)),
              socket := snd (dispatchMessage message (socket s))\<rparr>)
      else (reject internal_error p, s))"
  by (simp add: save_dispatch_resolve_eq catch_reject_def)

lemma todos_catch_save_dispatch_resolve:
  "todos (snd (catch_reject (save_dispatch_resolve message response p s))) = todos s"
  by (simp add: catch_save_dispatch_resolve)

lemma catch_save_dispatch_resolve_fields:
  "successRate (snd (catch_reject (save_dispatch_resolve message response p s))) = successRate s"
  "storable (snd (catch_reject (save_dispatch_resolve message response p s))) = storable s"
  "clients (socket (snd (catch_reject (save_dispatch_resolve message response p s)))) =
     clients (socket s)"
  "sequenceId (socket (snd (catch_reject (save_dispatch_resolve message response p s)))) =
     sequenceId (socket s)"
  "throws (socket (snd (catch_reject (save_dispatch_resolve message response p s)))) =
     throws (socket s)"
  by (simp_all add: catch_save_dispatch_resolve dispatchMessage_eq)

lemma quiet_cong:
  "clients a = clients b \<Longrightarrow> sequenceId a = sequenceId b \<Longrightarrow> throws a = throws b \<Longrightarrow>
   quiet a message = quiet b message"
  by (simp add: quiet_def)

lemma json_of_update_same:
  assumes "n < length ls" and "name l = name (ls ! n)" and "elems (items l) = elems (items (ls ! n))"
  shows "json_of (ls[n := l]) = json_of ls"
  using assms by (simp add: json_of_def map_update list_update_same_conv)

lemma until_first_take: "until_first P xs = take (length (until_first P xs)) xs"
  by (induction xs) (simp_all add: until_first_Nil until_first_Cons)

subsection \<open>The operations when the sample succeeds and the checks pass\<close>

lemma addTodo_valid:
  assumes "isSuccess (successRate s) rnd"
    and "0 \<le> listIndex" and "listIndex < int (length (todos s))"
  shows "addTodo listIndex item rnd s =
     (if length (elems (items (todos s ! nat listIndex))) < 4294967295
      then catch_reject
             (save_dispatch_resolve (AddTodoMessage listIndex item) True Pending
               (set_items listIndex
                 ((items (todos s ! nat listIndex))
                    \<lparr>elems := elems (items (todos s ! nat listIndex)) @ [Some item]\<rparr>) s))
      else (Rejected internal_error,
            set_items listIndex
              ((items (todos s ! nat listIndex))
                 \<lparr>props := AList.update (int (length (elems (items (todos s ! nat listIndex)))))
                     item (props (items (todos s ! nat listIndex)))\<rparr>) s))"
  using assms by (simp add: addTodo_def js_index_def Let_def array_push_def catch_reject_def)

lemma removeTodo_valid:
  assumes "isSuccess (successRate s) rnd"
    and "0 \<le> listIndex" and "listIndex < int (length (todos s))"
    and "0 \<le> todoIndex" and "todoIndex < array_length (items (todos s ! nat listIndex))"
  shows "removeTodo listIndex todoIndex rnd s =
     catch_reject
       (save_dispatch_resolve (RemoveTodoMessage listIndex todoIndex) True Pending
          (set_items listIndex
            ((items (todos s ! nat listIndex))
               \<lparr>elems := remove_at (nat todoIndex) (elems (items (todos s ! nat listIndex)))\<rparr>) s))"
  using assms
  by (simp add: removeTodo_def js_index_def Let_def array_splice_def array_length_def
      splice_remove_one)

lemma moveTodo_checked:
  assumes "isSuccess (successRate s) rnd"
    and "0 \<le> listIndex" and "listIndex < int (length (todos s))"
    and "0 \<le> sourceIndex" and "sourceIndex < array_length (items (todos s ! nat listIndex))"
  shows "moveTodo listIndex sourceIndex destIndex rnd s =
     catch_reject
       (save_dispatch_resolve (MoveTodoMessage listIndex sourceIndex destIndex) True Pending
          (set_items listIndex
            (snd (array_splice destIndex 0
                   [elems (items (todos s ! nat listIndex)) ! nat sourceIndex]
                   ((items (todos s ! nat listIndex))
                      \<lparr>elems := remove_at (nat sourceIndex)
                                 (elems (items (todos s ! nat listIndex)))\<rparr>))) s))"
  using assms
  by (simp add: moveTodo_def js_index_def array_splice_def array_length_def
      splice_remove_one Let_def split: prod.splits)

lemma moveTodo_valid:
  assumes "isSuccess (successRate s) rnd"
    and "0 \<le> listIndex" and "listIndex < int (length (todos s))"
    and "0 \<le> sourceIndex" and "sourceIndex < array_length (items (todos s ! nat listIndex))"
    and "0 \<le> destIndex"
  shows "moveTodo listIndex sourceIndex destIndex rnd s =
     catch_reject
       (save_dispatch_resolve (MoveTodoMessage listIndex sourceIndex destIndex) True Pending
          (set_items listIndex
            ((items (todos s ! nat listIndex))
               \<lparr>elems := insert_at (nat destIndex)
                   (elems (items (todos s ! nat listIndex)) ! nat sourceIndex)
                   (remove_at (nat sourceIndex) (elems (items (todos s ! nat listIndex))))\<rparr>) s))"
  using assms(6)
  by (simp add: moveTodo_checked [OF assms(1-5)] array_splice_def splice_insert insert_at_def)

text \<open>
  \<open>editTodo\<close> when the list is found: the check only decides how the promise settles.
\<close>

lemma editTodo_list_found:
  assumes "isSuccess (successRate s) rnd"
    and "0 \<le> listIndex" and "listIndex < int (length (todos s))"
  shows "editTodo listIndex itemIndex newValue rnd s =
     catch_reject
       (save_dispatch_resolve (EditTodoMessage listIndex itemIndex newValue) True
          (if itemIndex < 0 \<or> itemIndex \<ge> array_length (items (todos s ! nat listIndex))
           then reject index_out_of_bound Pending else Pending)
          (set_items listIndex (array_set itemIndex newValue (items (todos s ! nat listIndex))) s))"
  using assms by (simp add: editTodo_def js_index_def Let_def)

text \<open>
  The frame of an operation that changes the items of one list and then saves,
  dispatches and resolves.
\<close>

lemma frame_after_try:
  assumes "nat l < length (todos s)"
    and "r = catch_reject (save_dispatch_resolve m True Pending (set_items l a s))"
  shows "length (todos (snd r)) = length (todos s) \<and>
     (\<forall>j. j \<noteq> nat l \<longrightarrow> todos (snd r) ! j = todos s ! j) \<and>
     name (todos (snd r) ! nat l) = name (todos s ! nat l) \<and>
     (storable s (json_of (todos (snd r))) \<and> quiet (socket s) m \<longrightarrow> fst r = Resolved True)"
proof -
  have t: "todos (snd r) = todos (set_items l a s)"
    by (simp add: assms(2) todos_catch_save_dispatch_resolve)
  have "storable s (json_of (todos (set_items l a s))) \<and> quiet (socket s) m \<longrightarrow>
      fst r = Resolved True"
    by (simp add: assms(2) catch_save_dispatch_resolve set_items_fields)
  with frame_set_items [OF assms(1), of a] show ?thesis
    by (simp only: t) simp
qed

section \<open>Properties of the store\<close>

text \<open>
  C1. The specification asks that, for an index outside \<open>[0, count)\<close>, \<open>deleteList\<close>
  fails with ValidationError(400, "index out of bound"), leaves the lists unchanged and
  broadcasts nothing. The code rejects but does not return: it goes on to \<^verbatim>\<open>splice\<close>,
  to save and to dispatch. With one list and one listener, \<open>deleteList(-1)\<close> is rejected
  with 400, yet the list is removed, the emptied sequence is stored and the listener
  receives \<open>deleteList {index: -1}\<close>; \<open>deleteList(5)\<close> is rejected with 400 and removes
  nothing, yet the listener receives \<open>deleteList {index: 5}\<close>.
\<close>

theorem deleteList_out_of_bound_goes_on:
  "deleteList (- 1) 0
     \<lparr>successRate = 1, todos = [\<lparr>items = empty_array, name = ''a''\<rparr>],
      storage = ArrayBlob [(''a'', [])],
      socket = \<lparr>clients = [7], sequenceId = 0, delivered = [], throws = returning\<rparr>,
      storable = below_string_limit\<rparr>
   = (Rejected (ApiResponseError 400 ''index out of bound''),
      \<lparr>successRate = 1, todos = [], storage = ArrayBlob [],
       socket = \<lparr>clients = [7], sequenceId = 0,
                 delivered = [(7, SocketMessage 0 (DeleteListMessage (- 1)))],
                 throws = returning\<rparr>,
       storable = below_string_limit\<rparr>)
   \<and>
   deleteList 5 0
     \<lparr>successRate = 1, todos = [\<lparr>items = empty_array, name = ''a''\<rparr>],
      storage = ArrayBlob [(''a'', [])],
      socket = \<lparr>clients = [7], sequenceId = 0, delivered = [], throws = returning\<rparr>,
      storable = below_string_limit\<rparr>
   = (Rejected (ApiResponseError 400 ''index out of bound''),
      \<lparr>successRate = 1, todos = [\<lparr>items = empty_array, name = ''a''\<rparr>],
       storage = ArrayBlob [(''a'', [])],
       socket = \<lparr>clients = [7], sequenceId = 0,
                 delivered = [(7, SocketMessage 0 (DeleteListMessage 5))],
                 throws = returning\<rparr>,
       storable = below_string_limit\<rparr>)"
  by (simp add: deleteList_def isSuccess_def catch_reject_def save_dispatch_resolve_def
      saveTodoToStorage_def broadcast_def index_out_of_bound_def buildErrorResponse_def
      splice_js_def dispatchMessage_def call_client_def toJSON_def empty_array_def
      returning_def below_string_limit_def)

text \<open>
  C2. When the sample succeeds, the list index is valid and the item index is outside
  the items of the list, \<open>editTodo\<close> is rejected with (400, "index out of bound"), and
  yet the value is written at \<open>items[itemIndex]\<close>: reading that key gives the new
  value. For an array index past the end the array is extended, the slots in between
  staying empty; for any other key (negative, or \<open>2^32 - 1\<close> and above) the value is a
  property outside the slots, and the text to store is the text of the lists before.
  If the storage takes the text, the text is stored and
  \<open>editTodo {listIndex, itemIndex, newValue}\<close> is dispatched to the listeners in order,
  up to the first that throws (to all when none throws). If the save throws, nothing is
  stored and nothing is dispatched.
\<close>

theorem editTodo_out_of_bound_still_writes:
  assumes "isSuccess (successRate s) rnd"
    and "0 \<le> listIndex" and "listIndex < int (length (todos s))"
    and "itemIndex < 0 \<or> itemIndex \<ge> array_length (items (todos s ! nat listIndex))"
  shows "fst (editTodo listIndex itemIndex newValue rnd s) =
           Rejected (ApiResponseError 400 ''index out of bound'') \<and>
     todos (snd (editTodo listIndex itemIndex newValue rnd s)) =
       (todos s)[nat listIndex := (todos s ! nat listIndex)
          \<lparr>items := array_set itemIndex newValue (items (todos s ! nat listIndex))\<rparr>] \<and>
     array_get (items (todos (snd (editTodo listIndex itemIndex newValue rnd s)) ! nat listIndex))
       itemIndex = Some newValue \<and>
     (is_array_index itemIndex \<longrightarrow>
        elems (items (todos (snd (editTodo listIndex itemIndex newValue rnd s)) ! nat listIndex)) =
          elems (items (todos s ! nat listIndex)) @
          replicate (nat itemIndex - length (elems (items (todos s ! nat listIndex)))) None @
          [Some newValue]) \<and>
     (\<not> is_array_index itemIndex \<longrightarrow>
        json_of (todos (snd (editTodo listIndex itemIndex newValue rnd s))) = json_of (todos s)) \<and>
     (storable s (json_of (todos (snd (editTodo listIndex itemIndex newValue rnd s)))) \<longrightarrow>
        storage (snd (editTodo listIndex itemIndex newValue rnd s)) =
          ArrayBlob (json_of (todos (snd (editTodo listIndex itemIndex newValue rnd s)))) \<and>
        delivered (socket (snd (editTodo listIndex itemIndex newValue rnd s))) =
          delivered (socket s) @
          map (\<lambda>client. (client, SocketMessage (sequenceId (socket s))
                                   (EditTodoMessage listIndex itemIndex newValue)))
            (called (EditTodoMessage listIndex itemIndex newValue) (socket s)) \<and>
        (quiet (socket s) (EditTodoMessage listIndex itemIndex newValue) \<longrightarrow>
           called (EditTodoMessage listIndex itemIndex newValue) (socket s) = clients (socket s))) \<and>
     (\<not> storable s (json_of (todos (snd (editTodo listIndex itemIndex newValue rnd s)))) \<longrightarrow>
        storage (snd (editTodo listIndex itemIndex newValue rnd s)) = storage s \<and>
        socket (snd (editTodo listIndex itemIndex newValue rnd s)) = socket s)"
proof -
  let ?old = "items (todos s ! nat listIndex)"
  let ?s1 = "set_items listIndex (array_set itemIndex newValue ?old) s"
  let ?m = "EditTodoMessage listIndex itemIndex newValue"
  from assms(2,3) have l: "nat listIndex < length (todos s)" by linarith
  have run: "editTodo listIndex itemIndex newValue rnd s =
      catch_reject (save_dispatch_resolve ?m True (Rejected index_out_of_bound) ?s1)"
    using assms(4) by (simp add: editTodo_list_found [OF assms(1-3)])
  have t: "todos (snd (editTodo listIndex itemIndex newValue rnd s)) =
       (todos s)[nat listIndex := (todos s ! nat listIndex)
          \<lparr>items := array_set itemIndex newValue ?old\<rparr>]"
    by (simp add: run todos_catch_save_dispatch_resolve todos_set_items)
  have p: "fst (editTodo listIndex itemIndex newValue rnd s) =
           Rejected (ApiResponseError 400 ''index out of bound'')"
    by (simp add: run catch_save_dispatch_resolve index_out_of_bound_def buildErrorResponse_def)
  have g: "array_get (items (todos (snd (editTodo listIndex itemIndex newValue rnd s)) ! nat listIndex))
       itemIndex = Some newValue"
    using l by (simp add: t array_get_array_set)
  have e: "is_array_index itemIndex \<Longrightarrow>
        elems (items (todos (snd (editTodo listIndex itemIndex newValue rnd s)) ! nat listIndex)) =
          elems ?old @ replicate (nat itemIndex - length (elems ?old)) None @ [Some newValue]"
    using l assms(4) by (auto simp add: t elems_array_set is_array_index_def array_length_def)
  have j: "\<not> is_array_index itemIndex \<Longrightarrow>
        json_of (todos (snd (editTodo listIndex itemIndex newValue rnd s))) = json_of (todos s)"
    using l by (simp add: t json_of_update_same elems_array_set)
  have t1: "todos ?s1 = todos (snd (editTodo listIndex itemIndex newValue rnd s))"
    by (simp add: t todos_set_items)
  have st: "storable s (json_of (todos (snd (editTodo listIndex itemIndex newValue rnd s)))) \<Longrightarrow>
        storage (snd (editTodo listIndex itemIndex newValue rnd s)) =
          ArrayBlob (json_of (todos (snd (editTodo listIndex itemIndex newValue rnd s)))) \<and>
        delivered (socket (snd (editTodo listIndex itemIndex newValue rnd s))) =
          delivered (socket s) @
          map (\<lambda>client. (client, SocketMessage (sequenceId (socket s)) ?m)) (called ?m (socket s))"
    unfolding t1 [symmetric]
    by (simp add: run catch_save_dispatch_resolve set_items_fields dispatchMessage_eq)
  have nst: "\<not> storable s (json_of (todos (snd (editTodo listIndex itemIndex newValue rnd s)))) \<Longrightarrow>
        storage (snd (editTodo listIndex itemIndex newValue rnd s)) = storage s \<and>
        socket (snd (editTodo listIndex itemIndex newValue rnd s)) = socket s"
    unfolding t1 [symmetric]
    by (simp add: run catch_save_dispatch_resolve set_items_fields)
  from p t g e j st nst called_quiet show ?thesis by blast
qed

text \<open>
  An instance: \<open>editTodo(0, 5, B)\<close> on the items [A, B, C], two listeners that
  return.
\<close>

theorem editTodo_out_of_bound_example:
  "isSuccess (successRate abc_state) 0 \<and>
   array_length (items (todos abc_state ! nat 0)) \<le> 5 \<and>
   is_array_index 5 \<and>
   quiet (socket abc_state) (EditTodoMessage 0 5 item_B) \<and>
   fst (editTodo 0 5 item_B 0 abc_state) = Rejected (ApiResponseError 400 ''index out of bound'') \<and>
   array_get (items (todos (snd (editTodo 0 5 item_B 0 abc_state)) ! nat 0)) 5 = Some item_B \<and>
   elems (items (todos (snd (editTodo 0 5 item_B 0 abc_state)) ! nat 0)) =
     [Some item_A, Some item_B, Some item_C, None, None, Some item_B] \<and>
   storage (snd (editTodo 0 5 item_B 0 abc_state)) =
     ArrayBlob [(''letters'', [Some item_A, Some item_B, Some item_C, None, None, Some item_B])] \<and>
   delivered (socket (snd (editTodo 0 5 item_B 0 abc_state))) =
     [(1, SocketMessage 0 (EditTodoMessage 0 5 item_B)),
      (2, SocketMessage 0 (EditTodoMessage 0 5 item_B))]"
proof -
  have h1: "isSuccess (successRate abc_state) 0"
    by (simp add: abc_state_def isSuccess_def)
  have h2: "(0::int) \<le> 0" by simp
  have h3: "0 < int (length (todos abc_state))" by (simp add: abc_state_def)
  have h4: "array_length (items (todos abc_state ! nat 0)) \<le> 5"
    by (simp add: abc_state_def array_length_def)
  then have h5: "(5::int) < 0 \<or> 5 \<ge> array_length (items (todos abc_state ! nat 0))" by simp
  have i: "is_array_index 5" by (simp add: is_array_index_def)
  have q: "quiet (socket abc_state) (EditTodoMessage 0 5 item_B)"
    by (simp add: quiet_def abc_state_def returning_def)
  have two: "replicate (nat 5 - length [Some item_A, Some item_B, Some item_C]) None =
      [None, None :: todo option]"
    by (simp add: numeral_2_eq_2)
  note inst = editTodo_out_of_bound_still_writes [OF h1 h2 h3 h5, of item_B]
  from inst have "todos (snd (editTodo 0 5 item_B 0 abc_state)) =
       (todos abc_state)[nat 0 := (todos abc_state ! nat 0)
          \<lparr>items := array_set 5 item_B (items (todos abc_state ! nat 0))\<rparr>]"
    by blast
  also have "\<dots> =
     [\<lparr>items = \<lparr>elems = [Some item_A, Some item_B, Some item_C, None, None, Some item_B],
                 props = []\<rparr>, name = ''letters''\<rparr>]"
    using two by (simp add: abc_state_def array_set_def is_array_index_def)
  finally have t: "todos (snd (editTodo 0 5 item_B 0 abc_state)) =
     [\<lparr>items = \<lparr>elems = [Some item_A, Some item_B, Some item_C, None, None, Some item_B],
                 props = []\<rparr>, name = ''letters''\<rparr>]" .
  have e: "elems (items (todos (snd (editTodo 0 5 item_B 0 abc_state)) ! nat 0)) =
     [Some item_A, Some item_B, Some item_C, None, None, Some item_B]"
    by (simp add: t)
  have ok: "storable abc_state (json_of (todos (snd (editTodo 0 5 item_B 0 abc_state))))"
    by (simp add: t json_of_def) (simp add: abc_state_def below_string_limit_def)
  from inst ok q have
    "storage (snd (editTodo 0 5 item_B 0 abc_state)) =
       ArrayBlob (json_of (todos (snd (editTodo 0 5 item_B 0 abc_state))))"
    "delivered (socket (snd (editTodo 0 5 item_B 0 abc_state))) =
       delivered (socket abc_state) @
       map (\<lambda>client. (client, SocketMessage (sequenceId (socket abc_state))
                                (EditTodoMessage 0 5 item_B))) (clients (socket abc_state))"
    by simp_all
  then have sd: "storage (snd (editTodo 0 5 item_B 0 abc_state)) =
     ArrayBlob [(''letters'', [Some item_A, Some item_B, Some item_C, None, None, Some item_B])]"
   "delivered (socket (snd (editTodo 0 5 item_B 0 abc_state))) =
     [(1, SocketMessage 0 (EditTodoMessage 0 5 item_B)),
      (2, SocketMessage 0 (EditTodoMessage 0 5 item_B))]"
    by (simp_all add: t json_of_def) (simp add: abc_state_def)
  from inst have p: "fst (editTodo 0 5 item_B 0 abc_state) =
      Rejected (ApiResponseError 400 ''index out of bound'')"
    and g: "array_get (items (todos (snd (editTodo 0 5 item_B 0 abc_state)) ! nat 0)) 5 =
      Some item_B"
    by blast+
  from h1 h4 i q p g e sd show ?thesis by blast
qed

text \<open>
  C2 as the specification states it, for every item index outside the list, fails.
  With \<open>itemIndex = 2^32 - 2\<close> the array gets \<open>2^32 - 1\<close> slots, the save throws,
  the stored text stays that of [A, B, C] and no listener is called, though the value
  is written. With \<open>itemIndex = -1\<close> the save goes through, but the stored text is
  that of [A, B, C]: the value written at \<open>items[-1]\<close> is not in it, and the lists
  read back from it have nothing at that key.
\<close>

theorem editTodo_out_of_bound_not_stored:
  "fst (editTodo 0 4294967294 item_B 0 abc_state) =
     Rejected (ApiResponseError 400 ''index out of bound'') \<and>
   array_get (items (todos (snd (editTodo 0 4294967294 item_B 0 abc_state)) ! nat 0)) 4294967294 =
     Some item_B \<and>
   array_length (items (todos (snd (editTodo 0 4294967294 item_B 0 abc_state)) ! nat 0)) =
     4294967295 \<and>
   storage (snd (editTodo 0 4294967294 item_B 0 abc_state)) =
     ArrayBlob [(''letters'', [Some item_A, Some item_B, Some item_C])] \<and>
   delivered (socket (snd (editTodo 0 4294967294 item_B 0 abc_state))) = [] \<and>
   fst (editTodo 0 (- 1) item_B 0 abc_state) =
     Rejected (ApiResponseError 400 ''index out of bound'') \<and>
   array_get (items (todos (snd (editTodo 0 (- 1) item_B 0 abc_state)) ! nat 0)) (- 1) =
     Some item_B \<and>
   storage (snd (editTodo 0 (- 1) item_B 0 abc_state)) =
     ArrayBlob [(''letters'', [Some item_A, Some item_B, Some item_C])] \<and>
   array_get (items (fromJSON (''letters'', [Some item_A, Some item_B, Some item_C]))) (- 1) = None"
proof -
  have h1: "isSuccess (successRate abc_state) 0"
    by (simp add: abc_state_def isSuccess_def)
  have h3: "0 < int (length (todos abc_state))" by (simp add: abc_state_def)
  let ?big = "set_items 0 (array_set 4294967294 item_B (items (todos abc_state ! 0))) abc_state"
  have run: "editTodo 0 4294967294 item_B 0 abc_state =
     catch_reject (save_dispatch_resolve (EditTodoMessage 0 4294967294 item_B) True
        (Rejected index_out_of_bound) ?big)"
    using editTodo_list_found [OF h1 _ h3, of 4294967294 item_B]
    by (simp add: abc_state_def array_length_def)
  have len: "length (elems (items (todos ?big ! 0))) = 4294967295"
    by (simp add: todos_set_items abc_state_def length_elems_array_set is_array_index_def)
  have no: "\<not> storable ?big (json_of (todos ?big))"
    using len
    by (simp add: set_items_fields json_of_def todos_set_items)
       (simp add: abc_state_def below_string_limit_def length_elems_array_set is_array_index_def)
  have res: "editTodo 0 4294967294 item_B 0 abc_state = (Rejected index_out_of_bound, ?big)"
    using no by (simp add: run catch_save_dispatch_resolve)
  have big: "fst (editTodo 0 4294967294 item_B 0 abc_state) =
       Rejected (ApiResponseError 400 ''index out of bound'')"
    "array_get (items (todos (snd (editTodo 0 4294967294 item_B 0 abc_state)) ! nat 0)) 4294967294 =
       Some item_B"
    "array_length (items (todos (snd (editTodo 0 4294967294 item_B 0 abc_state)) ! nat 0)) =
       4294967295"
    "storage (snd (editTodo 0 4294967294 item_B 0 abc_state)) =
       ArrayBlob [(''letters'', [Some item_A, Some item_B, Some item_C])]"
    "delivered (socket (snd (editTodo 0 4294967294 item_B 0 abc_state))) = []"
    using len
    by (simp_all add: res index_out_of_bound_def buildErrorResponse_def set_items_fields
        array_length_def)
       (simp_all add: todos_set_items abc_state_def array_get_array_set)
  let ?neg = "set_items 0 (array_set (- 1) item_B (items (todos abc_state ! 0))) abc_state"
  have run': "editTodo 0 (- 1) item_B 0 abc_state =
     catch_reject (save_dispatch_resolve (EditTodoMessage 0 (- 1) item_B) True
        (Rejected index_out_of_bound) ?neg)"
    using editTodo_list_found [OF h1 _ h3, of "- 1" item_B]
    by (simp add: abc_state_def array_length_def)
  have tneg: "todos ?neg =
      [\<lparr>items = \<lparr>elems = [Some item_A, Some item_B, Some item_C], props = [(- 1, item_B)]\<rparr>,
        name = ''letters''\<rparr>]"
    by (simp add: todos_set_items abc_state_def array_set_def is_array_index_def)
  have yes: "storable ?neg (json_of (todos ?neg))"
    by (simp only: tneg set_items_fields) (simp add: json_of_def abc_state_def below_string_limit_def)
  have q: "quiet (socket ?neg) (EditTodoMessage 0 (- 1) item_B)"
    by (simp add: set_items_fields) (simp add: quiet_def abc_state_def returning_def)
  have res': "editTodo 0 (- 1) item_B 0 abc_state =
      (Rejected index_out_of_bound,
       ?neg\<lparr>storage := ArrayBlob (json_of (todos ?neg)),
             socket := snd (dispatchMessage (EditTodoMessage 0 (- 1) item_B) (socket ?neg))\<rparr>)"
    using yes q by (simp add: run' catch_save_dispatch_resolve)
  have neg: "fst (editTodo 0 (- 1) item_B 0 abc_state) =
       Rejected (ApiResponseError 400 ''index out of bound'')"
    "array_get (items (todos (snd (editTodo 0 (- 1) item_B 0 abc_state)) ! nat 0)) (- 1) =
       Some item_B"
    "storage (snd (editTodo 0 (- 1) item_B 0 abc_state)) =
       ArrayBlob [(''letters'', [Some item_A, Some item_B, Some item_C])]"
    by (simp_all add: res' tneg index_out_of_bound_def buildErrorResponse_def json_of_def
        array_get_def is_array_index_def)
  have reload: "array_get (items (fromJSON (''letters'', [Some item_A, Some item_B, Some item_C])))
      (- 1) = None"
    by (simp add: fromJSON_def array_get_def is_array_index_def)
  from big neg reload show ?thesis by simp
qed

text \<open>
  C3. When the sample succeeds, the list index and the source index are valid and the
  destination index is not negative, the items of the list after \<open>moveTodo\<close> are the
  former ones with the item at \<open>sourceIndex\<close> removed and then inserted at \<open>destIndex\<close>
  in the shortened sequence; a destination at or past the end of the shortened sequence
  appends the item. The operation resolves with true when nothing throws: the storage
  takes the lists and no listener throws.
\<close>

theorem moveTodo_removes_then_inserts:
  assumes "isSuccess (successRate s) rnd"
    and "0 \<le> listIndex" and "listIndex < int (length (todos s))"
    and "0 \<le> sourceIndex" and "sourceIndex < array_length (items (todos s ! nat listIndex))"
    and "0 \<le> destIndex"
  shows "elems (items (todos (snd (moveTodo listIndex sourceIndex destIndex rnd s)) ! nat listIndex)) =
       insert_at (nat destIndex) (elems (items (todos s ! nat listIndex)) ! nat sourceIndex)
         (remove_at (nat sourceIndex) (elems (items (todos s ! nat listIndex)))) \<and>
     (int (length (remove_at (nat sourceIndex) (elems (items (todos s ! nat listIndex)))))
        \<le> destIndex \<longrightarrow>
      elems (items (todos (snd (moveTodo listIndex sourceIndex destIndex rnd s)) ! nat listIndex)) =
        remove_at (nat sourceIndex) (elems (items (todos s ! nat listIndex))) @
          [elems (items (todos s ! nat listIndex)) ! nat sourceIndex]) \<and>
     (storable s (json_of (todos (snd (moveTodo listIndex sourceIndex destIndex rnd s)))) \<and>
      quiet (socket s) (MoveTodoMessage listIndex sourceIndex destIndex) \<longrightarrow>
      fst (moveTodo listIndex sourceIndex destIndex rnd s) = Resolved True)"
proof -
  from assms(2,3) have l: "nat listIndex < length (todos s)" by linarith
  let ?s1 = "set_items listIndex
            ((items (todos s ! nat listIndex))
               \<lparr>elems := insert_at (nat destIndex)
                   (elems (items (todos s ! nat listIndex)) ! nat sourceIndex)
                   (remove_at (nat sourceIndex) (elems (items (todos s ! nat listIndex))))\<rparr>) s"
  have t: "todos (snd (moveTodo listIndex sourceIndex destIndex rnd s)) = todos ?s1"
    by (simp only: moveTodo_valid [OF assms] todos_catch_save_dispatch_resolve)
  have content: "elems (items (todos (snd (moveTodo listIndex sourceIndex destIndex rnd s)) ! nat listIndex)) =
       insert_at (nat destIndex) (elems (items (todos s ! nat listIndex)) ! nat sourceIndex)
         (remove_at (nat sourceIndex) (elems (items (todos s ! nat listIndex))))"
    using l by (simp add: t todos_set_items)
  have app: "int (length (remove_at (nat sourceIndex) (elems (items (todos s ! nat listIndex)))))
        \<le> destIndex \<Longrightarrow>
      insert_at (nat destIndex) (elems (items (todos s ! nat listIndex)) ! nat sourceIndex)
         (remove_at (nat sourceIndex) (elems (items (todos s ! nat listIndex)))) =
        remove_at (nat sourceIndex) (elems (items (todos s ! nat listIndex))) @
          [elems (items (todos s ! nat listIndex)) ! nat sourceIndex]"
    by (simp add: insert_at_def)
  have ok: "storable s (json_of (todos (snd (moveTodo listIndex sourceIndex destIndex rnd s)))) \<Longrightarrow>
      quiet (socket s) (MoveTodoMessage listIndex sourceIndex destIndex) \<Longrightarrow>
      fst (moveTodo listIndex sourceIndex destIndex rnd s) = Resolved True"
    unfolding t
    by (simp add: moveTodo_valid [OF assms] catch_save_dispatch_resolve set_items_fields)
  from content app ok show ?thesis by simp
qed

text \<open>
  The scenario: with items [A, B, C] in list 0, \<open>moveTodo(0, 0, 2)\<close> gives [B, C, A].
\<close>

theorem moveTodo_abc_scenario:
  "isSuccess (successRate abc_state) 0 \<and>
   array_length (items (todos abc_state ! nat 0)) = 3 \<and>
   elems (items (todos (snd (moveTodo 0 0 2 0 abc_state)) ! nat 0)) =
     [Some item_B, Some item_C, Some item_A] \<and>
   quiet (socket abc_state) (MoveTodoMessage 0 0 2) \<and>
   fst (moveTodo 0 0 2 0 abc_state) = Resolved True"
proof -
  have h1: "isSuccess (successRate abc_state) 0"
    by (simp add: abc_state_def isSuccess_def)
  have h3: "0 < int (length (todos abc_state))" by (simp add: abc_state_def)
  have h5: "array_length (items (todos abc_state ! nat 0)) = 3"
    by (simp add: abc_state_def array_length_def)
  then have h5': "0 < array_length (items (todos abc_state ! nat 0))" by simp
  note inst = moveTodo_removes_then_inserts [OF h1 order_refl h3 order_refl h5', of 2]
  have q: "quiet (socket abc_state) (MoveTodoMessage 0 0 2)"
    by (simp add: quiet_def abc_state_def returning_def)
  from inst have "elems (items (todos (snd (moveTodo 0 0 2 0 abc_state)) ! nat 0)) =
       insert_at (nat 2) (elems (items (todos abc_state ! nat 0)) ! nat 0)
         (remove_at (nat 0) (elems (items (todos abc_state ! nat 0))))"
    by simp
  also have "\<dots> = [Some item_B, Some item_C, Some item_A]"
    by (simp add: abc_state_def insert_at_def remove_at_def)
  finally have e: "elems (items (todos (snd (moveTodo 0 0 2 0 abc_state)) ! nat 0)) =
     [Some item_B, Some item_C, Some item_A]" .
  have one: "length (todos (snd (moveTodo 0 0 2 0 abc_state))) = 1"
    by (simp add: moveTodo_checked [OF h1 order_refl h3 order_refl h5']
        todos_catch_save_dispatch_resolve todos_set_items) (simp add: abc_state_def)
  have ok: "storable abc_state (json_of (todos (snd (moveTodo 0 0 2 0 abc_state))))"
    using one e
    by (cases "todos (snd (moveTodo 0 0 2 0 abc_state))")
       (simp_all add: json_of_def abc_state_def below_string_limit_def)
  from inst ok q have r: "fst (moveTodo 0 0 2 0 abc_state) = Resolved True" by simp
  from h1 h5 e q r show ?thesis by blast
qed

text \<open>
  C4. When the sample succeeds and the list index is out of range or the item index is
  outside the items of the list, \<open>removeTodo\<close> is rejected with
  (400, "index out of bound") and the state (lists, storage, socket) is the one before.
\<close>

theorem removeTodo_invalid_index_rejected:
  assumes "isSuccess (successRate s) rnd"
    and "listIndex < 0 \<or> listIndex \<ge> int (length (todos s)) \<or>
         todoIndex < 0 \<or> todoIndex \<ge> array_length (items (todos s ! nat listIndex))"
  shows "removeTodo listIndex todoIndex rnd s =
           (Rejected (ApiResponseError 400 ''index out of bound''), s)"
  using assms
  by (auto simp add: removeTodo_def js_index_def index_out_of_bound_def buildErrorResponse_def
      catch_reject_def)

text \<open>
  The scenario: \<open>removeTodo(0, 5)\<close> on a list of two items.
\<close>

theorem removeTodo_two_item_scenario:
  "isSuccess (successRate two_item_state) 0 \<and>
   array_length (items (todos two_item_state ! nat 0)) = 2 \<and>
   removeTodo 0 5 0 two_item_state =
     (Rejected (ApiResponseError 400 ''index out of bound''), two_item_state) \<and>
   delivered (socket (snd (removeTodo 0 5 0 two_item_state))) = []"
  using removeTodo_invalid_index_rejected [of two_item_state 0 0 5]
  by (simp add: two_item_state_def isSuccess_def array_length_def)

text \<open>
  C5. On success (the sample succeeds, the storage takes the new sequence and no
  listener throws), \<open>createList\<close> appends the list \<open>{name, items: []}\<close>, resolves with
  the former length (the index of the new list), stores the new sequence and calls
  every listener, in order, with \<open>createList\<close> and the name and the items of the new
  list.
\<close>

theorem createList_appends:
  assumes "isSuccess (successRate s) rnd"
    and "storable s (json_of (todos s @ [\<lparr>items = empty_array, name = new_name\<rparr>]))"
    and "quiet (socket s) (CreateListMessage \<lparr>items = empty_array, name = new_name\<rparr>)"
  shows "createList new_name rnd s =
     (Resolved (int (length (todos s))),
      s\<lparr>todos := todos s @ [\<lparr>items = empty_array, name = new_name\<rparr>],
        storage := ArrayBlob (json_of (todos s @ [\<lparr>items = empty_array, name = new_name\<rparr>])),
        socket := (socket s)\<lparr>delivered := delivered (socket s) @
          map (\<lambda>client. (client, SocketMessage (sequenceId (socket s))
                 (CreateListMessage \<lparr>items = empty_array, name = new_name\<rparr>)))
            (clients (socket s))\<rparr>\<rparr>)"
  using assms
  by (simp add: createList_def broadcast_def saveTodoToStorage_def js_index_def Let_def
      nth_append spread_def empty_array_def json_of_eq dispatchMessage_eq called_quiet)

text \<open>
  The scenario: the store starts from a stored empty sequence, with one listener;
  \<open>createList("work")\<close> resolves with 0, the stored sequence is \<open>[{work, []}]\<close> and the
  listener receives \<open>createList {name: work, items: []}\<close>.
\<close>

theorem createList_work_scenario:
  "isSuccess (successRate
     (new_TodoApi (ArrayBlob []) (addListener 1 (new_socket returning)) below_string_limit)) 0 \<and>
   createList ''work'' 0
     (new_TodoApi (ArrayBlob []) (addListener 1 (new_socket returning)) below_string_limit) =
     (Resolved 0,
      \<lparr>successRate = 1,
       todos = [\<lparr>items = empty_array, name = ''work''\<rparr>],
       storage = ArrayBlob [(''work'', [])],
       socket = \<lparr>clients = [1], sequenceId = 0,
                 delivered = [(1, SocketMessage 0
                    (CreateListMessage \<lparr>items = empty_array, name = ''work''\<rparr>))],
                 throws = returning\<rparr>,
       storable = below_string_limit\<rparr>)"
  using createList_appends
    [of "new_TodoApi (ArrayBlob []) (addListener 1 (new_socket returning)) below_string_limit"
        0 "''work''"]
  by (simp add: new_TodoApi_def addListener_def new_socket_def isSuccess_def json_of_def
      empty_array_def quiet_def returning_def below_string_limit_def)

text \<open>
  With nothing stored, the store starts from the default list, and the first created
  list has index 1.
\<close>

lemma createList_after_default:
  "fst (createList ''work'' 0 (new_TodoApi NoItem (new_socket returning) below_string_limit)) =
     Resolved 1"
  by (simp add: createList_def new_TodoApi_def isSuccess_def initTodos_def js_index_def
      saveTodoToStorage_def broadcast_def Let_def dispatchMessage_def new_socket_def
      below_string_limit_def toJSON_def empty_array_def)

text \<open>
  C6. When both samples succeed, the list index is valid and the array has room,
  \<open>addTodo\<close> puts the item last and changes nothing else; after \<open>removeTodo\<close> at the
  index of that last item, the items of the list (indeed all lists) are as before the
  \<open>addTodo\<close>. Each of the two calls resolves with true when nothing throws in it: the
  storage takes the lists as the call leaves them and no listener throws on its
  message.
\<close>

theorem addTodo_then_removeTodo_restores:
  assumes "isSuccess (successRate s) rnd1" and "isSuccess (successRate s) rnd2"
    and "0 \<le> listIndex" and "listIndex < int (length (todos s))"
    and "has_room s listIndex"
  shows "(case addTodo listIndex item rnd1 s of (p1, s1) \<Rightarrow>
           (case removeTodo listIndex (array_length (items (todos s1 ! nat listIndex)) - 1) rnd2 s1
            of (p2, s2) \<Rightarrow>
              array_length (items (todos s1 ! nat listIndex)) - 1 =
                array_length (items (todos s ! nat listIndex)) \<and>
              elems (items (todos s1 ! nat listIndex)) =
                elems (items (todos s ! nat listIndex)) @ [Some item] \<and>
              todos s1 = (todos s)[nat listIndex := (todos s ! nat listIndex)
                \<lparr>items := (items (todos s ! nat listIndex))
                   \<lparr>elems := elems (items (todos s ! nat listIndex)) @ [Some item]\<rparr>\<rparr>] \<and>
              items (todos s2 ! nat listIndex) = items (todos s ! nat listIndex) \<and>
              todos s2 = todos s \<and>
              (storable s (json_of (todos s1)) \<and>
               quiet (socket s) (AddTodoMessage listIndex item) \<longrightarrow> p1 = Resolved True) \<and>
              (storable s (json_of (todos s)) \<and>
               quiet (socket s)
                 (RemoveTodoMessage listIndex (array_length (items (todos s ! nat listIndex))))
               \<longrightarrow> p2 = Resolved True)))"
proof -
  let ?old = "items (todos s ! nat listIndex)"
  let ?k = "array_length ?old"
  let ?pushed = "set_items listIndex (?old\<lparr>elems := elems ?old @ [Some item]\<rparr>) s"
  define r1 where "r1 = catch_reject
     (save_dispatch_resolve (AddTodoMessage listIndex item) True Pending ?pushed)"
  define s1 where "s1 = snd r1"
  from assms(3,4) have l: "nat listIndex < length (todos s)" by linarith
  from assms(5) have room: "length (elems ?old) < 4294967295"
    by (simp add: has_room_def array_length_def)
  have add: "addTodo listIndex item rnd1 s = (fst r1, s1)"
    using room by (simp add: addTodo_valid [OF assms(1,3,4)] r1_def s1_def)
  have t1: "todos s1 = (todos s)[nat listIndex :=
      (todos s ! nat listIndex)\<lparr>items := ?old\<lparr>elems := elems ?old @ [Some item]\<rparr>\<rparr>]"
    by (simp add: s1_def r1_def todos_catch_save_dispatch_resolve todos_set_items)
  have it1: "items (todos s1 ! nat listIndex) = ?old\<lparr>elems := elems ?old @ [Some item]\<rparr>"
    using l by (simp add: t1)
  have e1: "elems (items (todos s1 ! nat listIndex)) = elems ?old @ [Some item]"
    by (simp add: it1)
  have len1: "length (todos s1) = length (todos s)" by (simp add: t1)
  have f1: "successRate s1 = successRate s" "storable s1 = storable s"
    "clients (socket s1) = clients (socket s)" "sequenceId (socket s1) = sequenceId (socket s)"
    "throws (socket s1) = throws (socket s)"
    by (simp_all add: s1_def r1_def catch_save_dispatch_resolve_fields set_items_fields)
  have k: "array_length (items (todos s1 ! nat listIndex)) - 1 = ?k"
    by (simp add: it1 array_length_def)
  have p1: "storable s (json_of (todos s1)) \<and> quiet (socket s) (AddTodoMessage listIndex item)
      \<longrightarrow> fst r1 = Resolved True"
    unfolding t1 todos_set_items [symmetric]
    by (simp add: r1_def catch_save_dispatch_resolve set_items_fields)
  have restored: "(items (todos s1 ! nat listIndex))
      \<lparr>elems := remove_at (nat ?k) (elems (items (todos s1 ! nat listIndex)))\<rparr> = ?old"
    by (simp add: it1 array_length_def remove_at_last)
  have rem: "removeTodo listIndex ?k rnd2 s1 =
     catch_reject
       (save_dispatch_resolve (RemoveTodoMessage listIndex ?k) True Pending
          (set_items listIndex ?old s1))"
    using removeTodo_valid [of s1 rnd2 listIndex ?k] assms len1 f1(1)
    by (simp only: restored) (simp add: it1 array_length_def)
  obtain p2 s2 where r: "removeTodo listIndex ?k rnd2 s1 = (p2, s2)" by fastforce
  have t2: "todos (set_items listIndex ?old s1) = todos s"
    using l by (simp add: todos_set_items t1)
  have tr: "todos s2 = todos s"
    using r by (simp add: rem) (metis snd_conv todos_catch_save_dispatch_resolve t2)
  have q2: "quiet (socket s1) m = quiet (socket s) m" for m
    by (rule quiet_cong) (simp_all add: f1)
  have p2: "storable s (json_of (todos s)) \<and> quiet (socket s) (RemoveTodoMessage listIndex ?k)
      \<longrightarrow> p2 = Resolved True"
    using r by (auto simp add: rem catch_save_dispatch_resolve t2 set_items_fields f1 q2)
  from k e1 t1 tr p1 p2 have
    "array_length (items (todos s1 ! nat listIndex)) - 1 = ?k \<and>
     elems (items (todos s1 ! nat listIndex)) = elems ?old @ [Some item] \<and>
     todos s1 = (todos s)[nat listIndex :=
        (todos s ! nat listIndex)\<lparr>items := ?old\<lparr>elems := elems ?old @ [Some item]\<rparr>\<rparr>] \<and>
     items (todos s2 ! nat listIndex) = ?old \<and>
     todos s2 = todos s \<and>
     (storable s (json_of (todos s1)) \<and> quiet (socket s) (AddTodoMessage listIndex item)
        \<longrightarrow> fst r1 = Resolved True) \<and>
     (storable s (json_of (todos s)) \<and> quiet (socket s) (RemoveTodoMessage listIndex ?k)
        \<longrightarrow> p2 = Resolved True)"
    by simp
  then show ?thesis
    unfolding add prod.case k r .
qed

text \<open>
  An instance: \<open>addTodo(0, C)\<close> then \<open>removeTodo(0, 2)\<close> on the items [A, B].
\<close>

theorem addTodo_then_removeTodo_example:
  "isSuccess (successRate two_item_state) 0 \<and>
   isSuccess (successRate two_item_state) (1 / 2) \<and>
   0 < int (length (todos two_item_state)) \<and>
   has_room two_item_state 0 \<and>
   (case addTodo 0 item_C 0 two_item_state of (p1, s1) \<Rightarrow>
      (case removeTodo 0 (array_length (items (todos s1 ! nat 0)) - 1) (1 / 2) s1
       of (p2, s2) \<Rightarrow>
         array_length (items (todos s1 ! nat 0)) - 1 = 2 \<and>
         elems (items (todos s1 ! nat 0)) = [Some item_A, Some item_B, Some item_C] \<and>
         items (todos s2 ! nat 0) = \<lparr>elems = [Some item_A, Some item_B], props = []\<rparr> \<and>
         todos s2 = todos two_item_state \<and>
         p1 = Resolved True \<and> p2 = Resolved True))"
proof -
  have h1: "isSuccess (successRate two_item_state) 0"
    by (simp add: two_item_state_def isSuccess_def)
  have h2: "isSuccess (successRate two_item_state) (1 / 2)"
    by (simp add: two_item_state_def isSuccess_def)
  have h4: "0 < int (length (todos two_item_state))" by (simp add: two_item_state_def)
  have h5: "has_room two_item_state 0"
    by (simp add: has_room_def two_item_state_def array_length_def)
  obtain p1 s1 where a: "addTodo 0 item_C 0 two_item_state = (p1, s1)" by fastforce
  obtain p2 s2 where r: "removeTodo 0 (array_length (items (todos s1 ! nat 0)) - 1) (1 / 2) s1 =
      (p2, s2)" by fastforce
  have inst: "array_length (items (todos s1 ! nat 0)) - 1 =
        array_length (items (todos two_item_state ! nat 0)) \<and>
    elems (items (todos s1 ! nat 0)) = elems (items (todos two_item_state ! nat 0)) @ [Some item_C] \<and>
    todos s1 = (todos two_item_state)[nat 0 := (todos two_item_state ! nat 0)
        \<lparr>items := (items (todos two_item_state ! nat 0))
           \<lparr>elems := elems (items (todos two_item_state ! nat 0)) @ [Some item_C]\<rparr>\<rparr>] \<and>
    items (todos s2 ! nat 0) = items (todos two_item_state ! nat 0) \<and>
    todos s2 = todos two_item_state \<and>
    (storable two_item_state (json_of (todos s1)) \<and>
       quiet (socket two_item_state) (AddTodoMessage 0 item_C) \<longrightarrow> p1 = Resolved True) \<and>
    (storable two_item_state (json_of (todos two_item_state)) \<and>
       quiet (socket two_item_state)
         (RemoveTodoMessage 0 (array_length (items (todos two_item_state ! nat 0))))
       \<longrightarrow> p2 = Resolved True)"
    using addTodo_then_removeTodo_restores [OF h1 h2 order_refl h4 h5, of item_C]
    unfolding a prod.case r .
  have v: "array_length (items (todos two_item_state ! nat 0)) = 2"
    "elems (items (todos two_item_state ! nat 0)) @ [Some item_C] =
       [Some item_A, Some item_B, Some item_C]"
    "items (todos two_item_state ! nat 0) = \<lparr>elems = [Some item_A, Some item_B], props = []\<rparr>"
    by (simp_all add: two_item_state_def array_length_def)
  have q: "quiet (socket two_item_state) m" for m
    by (simp add: quiet_def two_item_state_def returning_def)
  have st0: "storable two_item_state (json_of (todos two_item_state))"
    by (simp add: two_item_state_def json_of_def below_string_limit_def empty_array_def)
  from inst have "todos s1 = (todos two_item_state)[nat 0 := (todos two_item_state ! nat 0)
        \<lparr>items := (items (todos two_item_state ! nat 0))
           \<lparr>elems := elems (items (todos two_item_state ! nat 0)) @ [Some item_C]\<rparr>\<rparr>]"
    by blast
  then have st1: "storable two_item_state (json_of (todos s1))"
    by (simp add: two_item_state_def json_of_def below_string_limit_def empty_array_def)
  from inst st0 st1 q have res: "array_length (items (todos s1 ! nat 0)) - 1 =
        array_length (items (todos two_item_state ! nat 0))"
    "elems (items (todos s1 ! nat 0)) = elems (items (todos two_item_state ! nat 0)) @ [Some item_C]"
    "items (todos s2 ! nat 0) = items (todos two_item_state ! nat 0)"
    "todos s2 = todos two_item_state" "p1 = Resolved True" "p2 = Resolved True"
    by blast+
  have "array_length (items (todos s1 ! nat 0)) - 1 = 2 \<and>
         elems (items (todos s1 ! nat 0)) = [Some item_A, Some item_B, Some item_C] \<and>
         items (todos s2 ! nat 0) = \<lparr>elems = [Some item_A, Some item_B], props = []\<rparr> \<and>
         todos s2 = todos two_item_state \<and>
         p1 = Resolved True \<and> p2 = Resolved True"
    unfolding res v by (simp add: array_length_def)
  with h1 h2 h4 h5 show ?thesis unfolding a prod.case r by blast
qed

text \<open>
  C7. When the sample succeeds and the list index and the source index are valid,
  \<open>moveTodo\<close> with the destination equal to the source leaves every list as it was.
  On success (the storage takes the lists and no listener throws) it resolves with
  true, the sequence is stored again and every listener is called with \<open>moveTodo\<close>;
  nothing else changes.
\<close>

theorem moveTodo_same_index:
  assumes "isSuccess (successRate s) rnd"
    and "0 \<le> listIndex" and "listIndex < int (length (todos s))"
    and "0 \<le> sourceIndex" and "sourceIndex < array_length (items (todos s ! nat listIndex))"
  shows "todos (snd (moveTodo listIndex sourceIndex sourceIndex rnd s)) = todos s \<and>
     (storable s (json_of (todos s)) \<and>
      quiet (socket s) (MoveTodoMessage listIndex sourceIndex sourceIndex) \<longrightarrow>
      moveTodo listIndex sourceIndex sourceIndex rnd s =
       (Resolved True,
        s\<lparr>storage := ArrayBlob (json_of (todos s)),
          socket := (socket s)\<lparr>delivered := delivered (socket s) @
            map (\<lambda>client. (client, SocketMessage (sequenceId (socket s))
                   (MoveTodoMessage listIndex sourceIndex sourceIndex)))
              (clients (socket s))\<rparr>\<rparr>))"
proof -
  from assms(2,3) have l: "nat listIndex < length (todos s)" by linarith
  from assms(4,5) have i: "nat sourceIndex < length (elems (items (todos s ! nat listIndex)))"
    unfolding array_length_def by linarith
  have run: "moveTodo listIndex sourceIndex sourceIndex rnd s =
      catch_reject (save_dispatch_resolve
        (MoveTodoMessage listIndex sourceIndex sourceIndex) True Pending s)"
    using l i
    by (simp add: moveTodo_valid [OF assms assms(4)] insert_at_remove_at set_items_same)
  show ?thesis
    by (simp add: run catch_save_dispatch_resolve dispatchMessage_eq called_quiet)
qed

text \<open>
  An instance: \<open>moveTodo(0, 1, 1)\<close> on the items [A, B, C], two listeners.
\<close>

theorem moveTodo_same_index_example:
  "isSuccess (successRate abc_state) 0 \<and>
   array_length (items (todos abc_state ! nat 0)) = 3 \<and>
   storable abc_state (json_of (todos abc_state)) \<and>
   quiet (socket abc_state) (MoveTodoMessage 0 1 1) \<and>
   moveTodo 0 1 1 0 abc_state =
     (Resolved True,
      abc_state\<lparr>socket := \<lparr>clients = [1, 2], sequenceId = 0,
        delivered = [(1, SocketMessage 0 (MoveTodoMessage 0 1 1)),
                     (2, SocketMessage 0 (MoveTodoMessage 0 1 1))],
        throws = returning\<rparr>\<rparr>)"
  using moveTodo_same_index [of abc_state 0 0 1]
  by (simp add: abc_state_def isSuccess_def array_length_def json_of_def quiet_def
      returning_def below_string_limit_def)

text \<open>
  C10. When the sample succeeds and the indices that the operation checks are valid,
  \<open>addTodo\<close>, \<open>removeTodo\<close>, \<open>moveTodo\<close> and \<open>editTodo\<close> keep the number of lists,
  leave every list other than the one at \<open>listIndex\<close> as it was, and leave the name of
  the list at \<open>listIndex\<close> as it was; they resolve with true when nothing throws.
\<close>

theorem item_calls_frame:
  assumes "isSuccess (successRate s) rnd" and "valid_indices s c"
  shows "length (todos (snd (perform c rnd s))) = length (todos s) \<and>
     (\<forall>j. j \<noteq> nat (target_list c) \<longrightarrow> todos (snd (perform c rnd s)) ! j = todos s ! j) \<and>
     name (todos (snd (perform c rnd s)) ! nat (target_list c)) =
       name (todos s ! nat (target_list c)) \<and>
     (nothing_throws s rnd c \<longrightarrow> fst (perform c rnd s) = Resolved True)"
proof (cases c)
  case (AddItem l item)
  with assms have v: "0 \<le> l" "l < int (length (todos s))" by (simp_all add: valid_list_def)
  then have n: "nat l < length (todos s)" by linarith
  show ?thesis
  proof (cases "has_room s l")
    case True
    then have "perform c rnd s = catch_reject
        (save_dispatch_resolve (message_of c) True Pending
          (set_items l ((items (todos s ! nat l))
             \<lparr>elems := elems (items (todos s ! nat l)) @ [Some item]\<rparr>) s))"
      by (simp add: AddItem addTodo_valid [OF assms(1) v] has_room_def array_length_def)
    from frame_after_try [OF n this] show ?thesis
      by (simp add: AddItem nothing_throws_def)
  next
    case False
    then have "perform c rnd s = (Rejected internal_error,
        set_items l ((items (todos s ! nat l))
          \<lparr>props := AList.update (int (length (elems (items (todos s ! nat l))))) item
             (props (items (todos s ! nat l)))\<rparr>) s)"
      by (simp add: AddItem addTodo_valid [OF assms(1) v] has_room_def array_length_def)
    with False frame_set_items [OF n] show ?thesis
      by (simp add: AddItem nothing_throws_def)
  qed
next
  case (RemoveItem l i)
  with assms have v: "0 \<le> l" "l < int (length (todos s))" "0 \<le> i"
      "i < array_length (items (todos s ! nat l))"
    by (simp_all add: valid_list_def valid_item_def)
  then have n: "nat l < length (todos s)" by linarith
  have "perform c rnd s = catch_reject
        (save_dispatch_resolve (message_of c) True Pending
          (set_items l ((items (todos s ! nat l))
             \<lparr>elems := remove_at (nat i) (elems (items (todos s ! nat l)))\<rparr>) s))"
    by (simp add: RemoveItem removeTodo_valid [OF assms(1) v])
  from frame_after_try [OF n this] show ?thesis
    by (simp add: RemoveItem nothing_throws_def)
next
  case (MoveItem l i d)
  with assms have v: "0 \<le> l" "l < int (length (todos s))" "0 \<le> i"
      "i < array_length (items (todos s ! nat l))"
    by (simp_all add: valid_list_def valid_item_def)
  then have n: "nat l < length (todos s)" by linarith
  have "perform c rnd s = catch_reject
        (save_dispatch_resolve (message_of c) True Pending
          (set_items l
            (snd (array_splice d 0 [elems (items (todos s ! nat l)) ! nat i]
                   ((items (todos s ! nat l))
                      \<lparr>elems := remove_at (nat i) (elems (items (todos s ! nat l)))\<rparr>))) s))"
    by (simp add: MoveItem moveTodo_checked [OF assms(1) v])
  from frame_after_try [OF n this] show ?thesis
    by (simp add: MoveItem nothing_throws_def)
next
  case (EditItem l i v')
  with assms have v: "0 \<le> l" "l < int (length (todos s))" "0 \<le> i"
      "i < array_length (items (todos s ! nat l))"
    by (simp_all add: valid_list_def valid_item_def)
  then have n: "nat l < length (todos s)" by linarith
  have "perform c rnd s = catch_reject
        (save_dispatch_resolve (message_of c) True Pending
          (set_items l (array_set i v' (items (todos s ! nat l))) s))"
    using v(3,4) by (simp add: EditItem editTodo_list_found [OF assms(1) v(1,2)])
  from frame_after_try [OF n this] show ?thesis
    by (simp add: EditItem nothing_throws_def)
qed

text \<open>
  An instance: \<open>moveTodo(0, 1, -3)\<close> on two lists.
\<close>

theorem item_calls_frame_example:
  "isSuccess (successRate two_item_state) 0 \<and>
   valid_indices two_item_state (MoveItem 0 1 (- 3)) \<and>
   nothing_throws two_item_state 0 (MoveItem 0 1 (- 3)) \<and>
   fst (perform (MoveItem 0 1 (- 3)) 0 two_item_state) = Resolved True \<and>
   length (todos (snd (perform (MoveItem 0 1 (- 3)) 0 two_item_state))) = 2 \<and>
   todos (snd (perform (MoveItem 0 1 (- 3)) 0 two_item_state)) ! 1 =
     \<lparr>items = empty_array, name = ''other''\<rparr> \<and>
   name (todos (snd (perform (MoveItem 0 1 (- 3)) 0 two_item_state)) ! 0) = ''pair''"
proof -
  have h1: "isSuccess (successRate two_item_state) 0"
    by (simp add: two_item_state_def isSuccess_def)
  have v: "0 < int (length (todos two_item_state))"
    "1 < array_length (items (todos two_item_state ! nat 0))"
    by (simp_all add: two_item_state_def array_length_def)
  have h2: "valid_indices two_item_state (MoveItem 0 1 (- 3))"
    using v by (simp add: valid_item_def valid_list_def)
  have t: "todos (snd (perform (MoveItem 0 1 (- 3)) 0 two_item_state)) =
      [\<lparr>items = \<lparr>elems = [Some item_B, Some item_A], props = []\<rparr>, name = ''pair''\<rparr>,
       \<lparr>items = empty_array, name = ''other''\<rparr>]"
    using moveTodo_checked [OF h1 order_refl v(1) _ v(2), of "- 3"]
    by (simp add: todos_catch_save_dispatch_resolve todos_set_items)
       (simp add: two_item_state_def array_splice_def splice_js_def remove_at_def)
  have h3: "nothing_throws two_item_state 0 (MoveItem 0 1 (- 3))"
    unfolding nothing_throws_def t
    by (simp add: two_item_state_def json_of_def below_string_limit_def empty_array_def
        quiet_def returning_def)
  have e: "todos two_item_state ! 1 = \<lparr>items = empty_array, name = ''other''\<rparr>"
    "name (todos two_item_state ! 0) = ''pair''" "length (todos two_item_state) = 2"
    by (simp_all add: two_item_state_def)
  from item_calls_frame [OF h1 h2] h1 h2 h3 e
  show ?thesis by simp
qed

section \<open>Properties of the notification channel\<close>

text \<open>
  C8. \<open>dispatchMessage\<close> calls the registered listeners in registration order, each
  once, with the message and the socket's current \<open>sequenceId\<close>, up to and including
  the first listener that throws: all of them when none throws, and otherwise the
  listeners after the one that throws are not called and the dispatch throws. It
  changes neither the \<open>sequenceId\<close> nor the listeners, so a second dispatch stamps the
  same \<open>sequenceId\<close>.
\<close>

theorem dispatchMessage_in_order_same_sequenceId:
  "delivered (snd (dispatchMessage message sock)) =
     delivered sock @
       map (\<lambda>client. (client, SocketMessage (sequenceId sock) message)) (called message sock) \<and>
   called message sock = take (length (called message sock)) (clients sock) \<and>
   (quiet sock message \<longrightarrow>
      fst (dispatchMessage message sock) = Normal \<and> called message sock = clients sock) \<and>
   (\<not> quiet sock message \<longrightarrow>
      fst (dispatchMessage message sock) = Throw \<and>
      called message sock \<noteq> [] \<and>
      throws sock (last (called message sock)) (SocketMessage (sequenceId sock) message) \<and>
      list_all (\<lambda>client. \<not> throws sock client (SocketMessage (sequenceId sock) message))
        (butlast (called message sock))) \<and>
   sequenceId (snd (dispatchMessage message sock)) = sequenceId sock \<and>
   clients (snd (dispatchMessage message sock)) = clients sock \<and>
   delivered (snd (dispatchMessage message2 (snd (dispatchMessage message sock)))) =
     delivered sock @
       map (\<lambda>client. (client, SocketMessage (sequenceId sock) message)) (called message sock) @
       map (\<lambda>client. (client, SocketMessage (sequenceId sock) message2)) (called message2 sock)"
proof -
  have first: "\<not> list_all (\<lambda>x. \<not> P x) xs \<Longrightarrow>
      until_first P xs \<noteq> [] \<and> P (last (until_first P xs)) \<and>
      list_all (\<lambda>x. \<not> P x) (butlast (until_first P xs))" for P and xs :: "nat list"
    by (induction xs) (auto simp add: until_first_Nil until_first_Cons)
  have c2: "called message2 (snd (dispatchMessage message sock)) = called message2 sock"
    by (simp add: called_def dispatchMessage_eq)
  have stop: "\<not> quiet sock message \<Longrightarrow>
      called message sock \<noteq> [] \<and>
      throws sock (last (called message sock)) (SocketMessage (sequenceId sock) message) \<and>
      list_all (\<lambda>client. \<not> throws sock client (SocketMessage (sequenceId sock) message))
        (butlast (called message sock))"
    unfolding quiet_def called_def by (rule first)
  have pre: "called message sock = take (length (called message sock)) (clients sock)"
    unfolding called_def by (rule until_first_take)
  have d2: "delivered (snd (dispatchMessage message2 (snd (dispatchMessage message sock)))) =
     delivered sock @
       map (\<lambda>client. (client, SocketMessage (sequenceId sock) message)) (called message sock) @
       map (\<lambda>client. (client, SocketMessage (sequenceId sock) message2)) (called message2 sock)"
    by (simp add: dispatchMessage_eq [of message2] c2 snd_dispatchMessage_fields)
       (simp add: dispatchMessage_eq)
  from stop pre d2 called_quiet [of sock message] show ?thesis
    by (simp add: dispatchMessage_eq)
qed

text \<open>
  An instance: two listeners that return, two dispatches.
\<close>

theorem dispatchMessage_two_listeners_example:
  "quiet two_listener_socket (DeleteListMessage 0) \<and>
   fst (dispatchMessage (DeleteListMessage 0) two_listener_socket) = Normal \<and>
   delivered (snd (dispatchMessage (DeleteListMessage 0) two_listener_socket)) =
     [(1, SocketMessage 4 (DeleteListMessage 0)), (2, SocketMessage 4 (DeleteListMessage 0))] \<and>
   sequenceId (snd (dispatchMessage (DeleteListMessage 0) two_listener_socket)) = 4 \<and>
   delivered (snd (dispatchMessage (DeleteListMessage 1)
       (snd (dispatchMessage (DeleteListMessage 0) two_listener_socket)))) =
     [(1, SocketMessage 4 (DeleteListMessage 0)), (2, SocketMessage 4 (DeleteListMessage 0)),
      (1, SocketMessage 4 (DeleteListMessage 1)), (2, SocketMessage 4 (DeleteListMessage 1))]"
proof -
  have q: "quiet two_listener_socket m" for m
    by (simp add: quiet_def two_listener_socket_def returning_def)
  have c: "called m two_listener_socket = [1, 2]" for m
    using called_quiet [OF q, of m] by (simp add: two_listener_socket_def)
  have f: "delivered two_listener_socket = []" "sequenceId two_listener_socket = 4"
    by (simp_all add: two_listener_socket_def)
  from dispatchMessage_in_order_same_sequenceId
         [of "DeleteListMessage 0" two_listener_socket "DeleteListMessage 1"] q
  show ?thesis by (simp add: c f)
qed

text \<open>
  C8 as the specification states it, for every sequence of listeners, fails: when
  the first of two listeners throws, the second is registered and is not called.
\<close>

theorem dispatchMessage_stops_at_throwing_listener:
  "clients first_throws_socket = [1, 2] \<and>
   fst (dispatchMessage (DeleteListMessage 0) first_throws_socket) = Throw \<and>
   delivered (snd (dispatchMessage (DeleteListMessage 0) first_throws_socket)) =
     [(1, SocketMessage 4 (DeleteListMessage 0))]"
  by (simp add: dispatchMessage_def call_client_def first_throws_socket_def first_throws_def)



end
